theory Spec2Isabelle
  imports Main "HOL-Library.Sublist"
begin

section \<open>The debugging control loop of data-to-paper\<close>

text \<open>
  A shallow embedding of \<^verbatim>\<open>data_to_paper/base_steps/debugger.py\<close>
  (class \<^verbatim>\<open>DebuggerConverser\<close>). Methods that assign to \<^verbatim>\<open>self\<close> take the controller
  state and return the new one; every \<^verbatim>\<open>raise\<close> is a value \<open>Inl e\<close>. Collaborators whose
  code is not part of the sources at hand (the issue collector, the token counter, the code
  runner, the language model) are parameters: the record \<open>deps\<close> holds the functions, the
  record \<open>attempt\<close> holds what the model and the runner deliver in one iteration.
\<close>

subsection \<open>Python values as text\<close>

abbreviation NL :: char where "NL \<equiv> CHR 0x0A"
abbreviation DQ :: char where "DQ \<equiv> CHR 0x22"
abbreviation SQ :: char where "SQ \<equiv> CHR 0x27"
abbreviation BSL :: char where "BSL \<equiv> CHR 0x5C"

definition digit_char :: "nat \<Rightarrow> char" where
  "digit_char d = char_of (48 + d)"

fun str_nat :: "nat \<Rightarrow> string" where
  "str_nat n = (if n < 10 then [digit_char n] else str_nat (n div 10) @ [digit_char (n mod 10)])"

declare str_nat.simps [simp del]

definition str_int :: "int \<Rightarrow> string" where
  \<comment> \<open>\<^verbatim>\<open>str(i)\<close> of a Python int.\<close>
  "str_int i = (if i < 0 then CHR ''-'' # str_nat (nat (- i)) else str_nat (nat i))"

definition hex_digit :: "nat \<Rightarrow> char" where
  "hex_digit d = (if d < 10 then char_of (48 + d) else char_of (87 + d))"

definition py_printable :: "char \<Rightarrow> bool" where
  \<comment> \<open>\<^verbatim>\<open>str.isprintable\<close> on code points below 256.\<close>
  "py_printable c =
     (let n = of_char c :: nat in (32 \<le> n \<and> n < 127) \<or> (161 \<le> n \<and> n \<noteq> 173))"

definition repr_char :: "char \<Rightarrow> char \<Rightarrow> string" where
  \<comment> \<open>One character inside \<^verbatim>\<open>repr(s)\<close>, with \<open>q\<close> the enclosing quote.\<close>
  "repr_char q c =
     (if c = q \<or> c = BSL then [BSL, c]
      else if c = NL then [BSL, CHR ''n'']
      else if c = CHR 0x0D then [BSL, CHR ''r'']
      else if c = CHR 0x09 then [BSL, CHR ''t'']
      else if py_printable c then [c]
      else [BSL, CHR ''x'', hex_digit (of_char c div 16), hex_digit (of_char c mod 16)])"

definition repr_str :: "string \<Rightarrow> string" where
  \<comment> \<open>\<^verbatim>\<open>repr(s)\<close> of a Python str: single quotes, unless the text has a single quote and
      no double quote.\<close>
  "repr_str s =
     (let q = (if SQ \<in> set s \<and> DQ \<notin> set s then DQ else SQ)
      in q # concat (map (repr_char q) s) @ [q])"

fun join_str :: "string \<Rightarrow> string list \<Rightarrow> string" where
  \<comment> \<open>\<^verbatim>\<open>sep.join(xs)\<close>\<close>
  "join_str sep [] = []"
| "join_str sep [x] = x"
| "join_str sep (x # y # ys) = x @ sep @ join_str sep (y # ys)"

definition str_list :: "string list \<Rightarrow> string" where
  \<comment> \<open>\<^verbatim>\<open>str(xs)\<close> of a list of str.\<close>
  "str_list xs = ''['' @ join_str '', '' (map repr_str xs) @ '']''"

definition str_opt_list :: "string list option \<Rightarrow> string" where
  \<comment> \<open>\<^verbatim>\<open>str(xs)\<close> of an \<^verbatim>\<open>Optional[list]\<close>.\<close>
  "str_opt_list xs = (case xs of None \<Rightarrow> ''None'' | Some ys \<Rightarrow> str_list ys)"

definition str_tuple :: "string list \<Rightarrow> string" where
  \<comment> \<open>\<^verbatim>\<open>str(t)\<close> of a tuple of str; a tuple of one element ends with a comma.\<close>
  "str_tuple xs =
     (case xs of [x] \<Rightarrow> ''('' @ repr_str x @ '',)''
      | _ \<Rightarrow> ''('' @ join_str '', '' (map repr_str xs) @ '')'')"

definition str_opt :: "string option \<Rightarrow> string" where
  \<comment> \<open>\<^verbatim>\<open>'{}'.format(x)\<close> of an \<^verbatim>\<open>Optional[str]\<close>.\<close>
  "str_opt x = (case x of None \<Rightarrow> ''None'' | Some s \<Rightarrow> s)"

subsection \<open>Errors\<close>

datatype error =
    TypeError
  | IndexError
  | KeyError
  | OSFileNotFound string

subsection \<open>Classifications and issues\<close>

text \<open>
  Modelled from the spec: the enum \<^verbatim>\<open>CodeProblem\<close>, which the module imports from
  \<^verbatim>\<open>run_gpt_code.types\<close>. Its members and their order are the ones the specification
  lists, from the least to the most severe:
  NoCode, NotSingleBlock, IncompleteBlock, StaticCheck, RuntimeError, OutputFileContent.
\<close>

datatype CodeProblem =
    NoCode
  | NotSingleBlock
  | IncompleteBlock
  | StaticCheck
  | RuntimeError
  | OutputFileContent

fun severity :: "CodeProblem \<Rightarrow> nat" where
  \<comment> \<open>Modelled from the spec: the position of a member in the order of \<^verbatim>\<open>CodeProblem\<close>.\<close>
  "severity NoCode = 0"
| "severity NotSingleBlock = 1"
| "severity IncompleteBlock = 2"
| "severity StaticCheck = 3"
| "severity RuntimeError = 4"
| "severity OutputFileContent = 5"

definition code_problem_gt :: "CodeProblem option \<Rightarrow> CodeProblem \<Rightarrow> error + bool" where
  \<comment> \<open>\<^verbatim>\<open>code_problem > CodeProblem.X\<close>; Python raises TypeError when the left side is None.\<close>
  "code_problem_gt cp x =
     (case cp of None \<Rightarrow> Inl TypeError | Some c \<Rightarrow> Inr (severity x < severity c))"

text \<open>
  \<^verbatim>\<open>RunIssue\<close> with the three fields that the module sets; \<open>end_with = None\<close> stands for
  a call that does not pass \<^verbatim>\<open>end_with\<close>.
\<close>

record RunIssue =
  issue :: string
  comment :: string
  end_with :: "string option"

subsection \<open>The conversation\<close>

datatype Role = SYSTEM | USER | ASSISTANT | SURROGATE

record Message =
  role :: Role
  content :: string
  tag :: "string option"  \<comment> \<open>the \<^verbatim>\<open>comment\<close> argument of the append operations\<close>
  ignore :: bool

definition append_message :: "Message list \<Rightarrow> Role \<Rightarrow> string \<Rightarrow> string option \<Rightarrow> bool \<Rightarrow> Message list" where
  "append_message conv r c t ig = conv @ [\<lparr>role = r, content = c, tag = t, ignore = ig\<rparr>]"

definition resolve_index :: "nat \<Rightarrow> int \<Rightarrow> error + nat" where
  \<comment> \<open>A Python index into a sequence of length \<open>n\<close>: negative indices count from the end.\<close>
  "resolve_index n i =
     (let j = (if i < 0 then int n + i else i)
      in if 0 \<le> j \<and> j < int n then Inr (nat j) else Inl IndexError)"

fun resolve_indices :: "nat \<Rightarrow> int list \<Rightarrow> error + nat list" where
  "resolve_indices n [] = Inr []"
| "resolve_indices n (i # is) =
     (case resolve_index n i of
        Inl e \<Rightarrow> Inl e
      | Inr j \<Rightarrow> (case resolve_indices n is of Inl e \<Rightarrow> Inl e | Inr js \<Rightarrow> Inr (j # js)))"

definition delete_messages :: "Message list \<Rightarrow> int list \<Rightarrow> error + Message list" where
  \<comment> \<open>Modelled from the spec: the conversation's "delete messages by index range"
      (\<^verbatim>\<open>apply_delete_messages\<close> of the base class). The designated positions, read against
      the conversation as it is before the deletion, are removed; a position outside the
      conversation is an IndexError.\<close>
  "delete_messages conv idxs =
     (case resolve_indices (length conv) idxs of
        Inl e \<Rightarrow> Inl e
      | Inr js \<Rightarrow> Inr (map fst (filter (\<lambda>(m, k). k \<notin> set js) (zip conv [0..<length conv]))))"

definition rewind_to_first_response :: "Message list \<Rightarrow> nat \<Rightarrow> Message list" where
  \<comment> \<open>Modelled from the spec: \<^verbatim>\<open>_rewind_conversation_to_first_response\<close> of the base class,
      "rewind the conversation to immediately after the first model response": the messages
      before the first response and the first response stay, everything later goes.\<close>
  "rewind_to_first_response conv len_before = take (len_before + 1) conv"

subsection \<open>Output requirements and run results\<close>

text \<open>A dict is an association list; its keys occur once.\<close>

record OutputFileRequirement =
  filename :: string
  minimal_count :: int
  is_wildcard :: bool
  max_tokens :: "int option"  \<comment> \<open>\<open>Some\<close> for a \<^verbatim>\<open>ContentOutputFileRequirement\<close>\<close>

record CodeAndOutput =
  code :: string
  requirements_to_output_files_to_contents ::
    "(OutputFileRequirement \<times> (string \<times> string) list) list"
  created_content_files_to_contents :: "(string \<times> string) list"
    \<comment> \<open>\<^verbatim>\<open>get_created_content_files_to_contents(is_clean=True)\<close>\<close>
  created_data_files :: "string list"  \<comment> \<open>\<^verbatim>\<open>get_created_data_files()\<close>\<close>
  read_changed_but_unsaved_ids :: "nat list"
  read_but_unsaved_filenames :: string
    \<comment> \<open>the text of \<^verbatim>\<open>get_read_filenames_from_ids(get_read_changed_but_unsaved_ids())\<close>\<close>

subsection \<open>Execution failures\<close>

datatype exc_class =
    ImportError
  | TimeoutError
  | UnAllowedFilesCreated
  | FileNotFoundError
  | CodeUsesForbiddenFunctions
  | UnAllowedDataframeMethodCall
  | CodeImportForbiddenModule
  | CodeWriteForbiddenFile
  | CodeReadForbiddenFile
  | DataFrameSeriesChange
  | RunUtilsError
  | OtherClass string

text \<open>
  An exception object: the classes it is an instance of (its own class and the bases), its
  \<^verbatim>\<open>str\<close>, and the attributes the classifiers read. An attribute that a class does not
  define is simply not read for that class; \<^verbatim>\<open>fromlist\<close> is the one attribute the code
  tests with \<^verbatim>\<open>hasattr\<close>.
\<close>

record py_exception =
  classes :: "exc_class list"
  exc_str :: string
  fromlist :: "string list option"
  func :: string
  method_name :: string
  module :: string
  "file" :: string
  un_allowed_files :: "string list"
  changed_series :: string
  message :: string

definition isinstance :: "py_exception \<Rightarrow> exc_class \<Rightarrow> bool" where
  "isinstance e t = (t \<in> set (classes e))"

record FailedRunningCode =
  exception :: py_exception
  get_traceback_message :: "nat \<Rightarrow> string"
    \<comment> \<open>the traceback, adjusted for the lines added in front of the code\<close>
  is_warning :: bool  \<comment> \<open>\<^verbatim>\<open>isinstance(error, Warning)\<close>\<close>

datatype extraction =
    Extracted string
  | IncompleteBlockFailedExtractingBlock
  | FailedExtractingBlock string  \<comment> \<open>carries \<^verbatim>\<open>str(e)\<close>\<close>


text \<open>What the language model and the code runner deliver in one iteration.\<close>

record attempt =
  response :: string
  extract_code :: extraction
  lines_added_in_front_of_code :: nat
  run_code :: "FailedRunningCode + (CodeAndOutput \<times> RunIssue list)"
  folder_after_run :: "string set"  \<comment> \<open>the files of the data folder once the run is over\<close>

subsection \<open>The controller\<close>

record DebuggerConverser =
  conversation :: "Message list"
  conversation_len_before_first_response :: nat
  data_folder :: "string set"  \<comment> \<open>the files in the directory \<^verbatim>\<open>data_folder\<close>\<close>
  data_filenames :: "string list option"
  output_file_requirements :: "OutputFileRequirement list"
  enforce_saving_altered_dataframes :: bool
  supported_packages :: "string list"
  prompt_to_append_at_end_of_response :: string
  model_engine :: nat  \<comment> \<open>the position of the engine in the ordered enum \<^verbatim>\<open>ModelEngine\<close>\<close>
  max_debug_iterations :: int
  debug_iteration :: int
  previous_code :: "string option"
  requesting_small_change :: bool
  previous_code_problem :: "CodeProblem option"
  runner_constructions :: nat  \<comment> \<open>counts the calls of \<^verbatim>\<open>runner_cls(...)\<close>\<close>
  extract_code_calls :: nat  \<comment> \<open>counts the calls of \<^verbatim>\<open>code_runner.extract_code()\<close>\<close>
  run_code_calls :: nat  \<comment> \<open>counts the calls of \<^verbatim>\<open>code_runner.run_code()\<close>\<close>

text \<open>The collaborators that are imported from elsewhere in the package.\<close>

record deps =
  get_message_and_comment :: "RunIssue option list \<Rightarrow> string \<Rightarrow> string \<times> string"
    \<comment> \<open>\<^verbatim>\<open>RunIssueCollector(issues).get_message_and_comment(end_with=...)\<close>\<close>
  do_all_issues_request_small_change :: "RunIssue option list \<Rightarrow> bool"
  MAX_MODEL_ENGINE :: nat
  get_next :: "nat \<Rightarrow> nat"  \<comment> \<open>\<^verbatim>\<open>ModelEngine.get_next\<close>\<close>
  str_model_engine :: "nat \<Rightarrow> string"
  count_number_of_tokens_in_message :: "string \<Rightarrow> int"
  extract_to_nearest_newline :: "string \<Rightarrow> int \<Rightarrow> string"
  line_count :: "string option \<Rightarrow> int"
  initialize_conversation_if_needed :: "DebuggerConverser \<Rightarrow> DebuggerConverser"

definition KNOWN_MIS_IMPORTS :: "(string \<times> string) list" where
  "KNOWN_MIS_IMPORTS = [(''Mediation'', ''statsmodels.stats.mediation'')]"

definition get_single_content_file_from_requirements :: "OutputFileRequirement list \<Rightarrow> string option" where
  \<comment> \<open>Modelled from the spec: \<^verbatim>\<open>get_single_content_file_from_requirements\<close> of
      \<^verbatim>\<open>run_gpt_code.types\<close>, "the declared sole output file": the filename of the
      content-output requirement when exactly one is declared, None otherwise.\<close>
  "get_single_content_file_from_requirements reqs =
     (case filter (\<lambda>r. max_tokens r \<noteq> None) reqs of [r] \<Rightarrow> Some (filename r) | _ \<Rightarrow> None)"

definition output_filename :: "DebuggerConverser \<Rightarrow> string option" where
  "output_filename s = get_single_content_file_from_requirements (output_file_requirements s)"

definition iteration_str :: "DebuggerConverser \<Rightarrow> string" where
  "iteration_str s =
     ''Debug iteration '' @ str_int (debug_iteration s) @ ''/'' @ str_int (max_debug_iterations s)"

definition description_of_allowed_output_files :: "DebuggerConverser \<Rightarrow> string" where
  "description_of_allowed_output_files s =
     (let requirements = output_file_requirements s
      in if length requirements = 0 then ''Your code should not write to any file.''
         else ''Your code should only write to these files: ''
              @ join_str '', '' (map (\<lambda>r. [DQ] @ filename r @ [DQ]) requirements) @ ''.'')"

subsection \<open>Issues\<close>

text \<open>
  The message texts pass through \<^verbatim>\<open>dedent_triple_quote_str\<close>; they are given here as the
  literal reads once its leading newline, its common indentation and the indentation after
  a backslash-newline are removed.
\<close>

definition got_error_message :: "string \<Rightarrow> string" where
  "got_error_message e =
     ''I ran the code and got the following error message:'' @ [NL] @ ''```'' @ [NL]
     @ e @ [NL] @ ''```'' @ [NL]"

definition get_issue_for_known_mis_imports :: "DebuggerConverser \<Rightarrow> py_exception \<Rightarrow> RunIssue option" where
  "get_issue_for_known_mis_imports s e =
     (case fromlist e of
        None \<Rightarrow> None
      | Some fl \<Rightarrow>
          if length fl \<noteq> 1 then None
          else let var = hd fl in
            (case map_of KNOWN_MIS_IMPORTS var of
               None \<Rightarrow> None
             | Some correct_package \<Rightarrow>
                 let package_base = takeWhile (\<lambda>c. c \<noteq> CHR ''.'') correct_package in
                 if package_base \<notin> set (supported_packages s) then None
                 else Some \<lparr>issue =
                        got_error_message (exc_str e)
                        @ ''Your code should only use these packages: ''
                        @ str_tuple (supported_packages s) @ ''.'' @ [NL]
                        @ ''Note that there is a `'' @ var @ ''` in `'' @ correct_package
                        @ ''`. Is this perhaps what you needed? '' @ [NL],
                      comment = ''ImportError detected in gpt code'',
                      end_with = None\<rparr>))"

definition get_issue_for_allowed_packages :: "DebuggerConverser \<Rightarrow> py_exception \<Rightarrow> RunIssue" where
  "get_issue_for_allowed_packages s e =
     (case get_issue_for_known_mis_imports s e of
        Some respond_to_known_mis_imports \<Rightarrow> respond_to_known_mis_imports
      | None \<Rightarrow>
          \<lparr>issue =
             got_error_message (exc_str e)
             @ ''Your code should only use these packages: ''
             @ str_tuple (supported_packages s) @ ''.'' @ [NL],
           comment = ''ImportError detected in gpt code'',
           end_with = None\<rparr>)"

definition get_issue_for_file_not_found :: "DebuggerConverser \<Rightarrow> py_exception \<Rightarrow> RunIssue" where
  "get_issue_for_file_not_found s e =
     \<lparr>issue =
        got_error_message (exc_str e)
        @ ''As noted in the data description, we only have these files:'' @ [NL]
        @ str_opt_list (data_filenames s) @ ''  '' @ [NL] @ [NL]
        @ ''Files are located in the same directory as the code. '' @ [NL],
      comment = ''FileNotFound detected in code'',
      end_with = None\<rparr>"

definition get_issue_for_regular_exception_or_warning :: "FailedRunningCode \<Rightarrow> nat \<Rightarrow> RunIssue" where
  "get_issue_for_regular_exception_or_warning err lines_added =
     (let error_message = get_traceback_message err lines_added
      in \<lparr>issue =
            ''I ran the code and got the following ''
            @ (if is_warning err then ''warning'' else ''error'') @ '' message:'' @ [NL]
            @ ''```'' @ [NL] @ error_message @ [NL] @ ''```'' @ [NL],
          comment = ''Runtime exception in code'',
          end_with = None\<rparr>)"

definition get_issue_for_timeout :: "DebuggerConverser \<Rightarrow> py_exception \<Rightarrow> RunIssue" where
  "get_issue_for_timeout s e =
     \<lparr>issue =
        ''I ran the code, but it just ran forever... Perhaps got stuck in too long calculations.''
        @ [NL],
      comment = ''Code has timed out'',
      end_with = None\<rparr>"

definition get_issue_for_incomplete_code :: "deps \<Rightarrow> DebuggerConverser \<Rightarrow> RunIssue \<times> DebuggerConverser" where
  \<comment> \<open>The one classifier that assigns to \<^verbatim>\<open>self\<close>: it moves to the next model engine.\<close>
  "get_issue_for_incomplete_code D s =
     (if model_engine s < MAX_MODEL_ENGINE D then
        let s' = s\<lparr>model_engine := get_next D (model_engine s)\<rparr> in
        (\<lparr>issue = ''Your sent incomplete code. Let'' @ [SQ] @ ''s bump you up to ''
                   @ str_model_engine D (get_next D (model_engine s')) @ '' and retry!'',
          comment = ''Code is incomplete'',
          end_with = None\<rparr>, s')
      else
        (\<lparr>issue = ''Your sent incomplete code. Please regenerate response.'',
          comment = ''Code is incomplete'',
          end_with = None\<rparr>, s))"

definition get_issue_for_missing_or_multiple_code :: "string \<Rightarrow> RunIssue" where
  "get_issue_for_missing_or_multiple_code e =
     \<lparr>issue = e, comment = ''Failed extracting code from gpt response'', end_with = None\<rparr>"

definition get_issue_for_forbidden_functions :: "DebuggerConverser \<Rightarrow> py_exception \<Rightarrow> RunIssue" where
  "get_issue_for_forbidden_functions s e =
     (if func e = ''print'' then
        (if output_filename s = None \<or> output_filename s = Some [] then
           \<lparr>issue = ''Please do not use the `print` function.'' @ [NL]
              @ ''Your code should only save any new or modified dataframes; should have no other output.''
              @ [NL],
            comment = ''Code uses `print`'',
            end_with = None\<rparr>
         else
           \<lparr>issue = ''Please do not use the `print` function. '' @ [NL]
              @ ''Anything you want to print must be written to the output file (''
              @ [DQ] @ str_opt (output_filename s) @ [DQ] @ ''). '' @ [NL],
            comment = ''Code uses `print`'',
            end_with = None\<rparr>)
      else
        \<lparr>issue = ''Your code uses the function `'' @ func e @ ''`, which is not allowed.'' @ [NL],
         comment = ''Code uses forbidden function '' @ func e,
         end_with = None\<rparr>)"

definition get_issue_for_forbidden_method :: "DebuggerConverser \<Rightarrow> py_exception \<Rightarrow> RunIssue" where
  "get_issue_for_forbidden_method s e =
     \<lparr>issue = ''Your code uses the dataframe method `'' @ method_name e
        @ ''`, which is not allowed.'' @ [NL],
      comment = ''Code uses forbidden method '' @ method_name e,
      end_with = None\<rparr>"

definition get_issue_for_forbidden_import :: "DebuggerConverser \<Rightarrow> py_exception \<Rightarrow> RunIssue" where
  "get_issue_for_forbidden_import s e =
     \<lparr>issue = ''Your code import the module `'' @ module e @ ''`, which is not allowed.'' @ [NL]
        @ ''Please rewrite the complete code again without using this module. '' @ [NL],
      comment = ''Code imports forbidden module'',
      end_with = Some []\<rparr>"

definition get_issues_for_static_code_check :: "string \<Rightarrow> RunIssue list" where
  "get_issues_for_static_code_check c = []"

definition get_issue_for_forbidden_write :: "DebuggerConverser \<Rightarrow> py_exception \<Rightarrow> RunIssue" where
  "get_issue_for_forbidden_write s e =
     \<lparr>issue = ''Your code writes to the file '' @ [DQ] @ file e @ [DQ]
        @ '' which is not allowed.'' @ [NL]
        @ description_of_allowed_output_files s @ [NL],
      comment = ''Code writes to forbidden file'',
      end_with = None\<rparr>"

definition get_issue_for_un_allowed_files_created :: "DebuggerConverser \<Rightarrow> py_exception \<Rightarrow> error + RunIssue" where
  \<comment> \<open>The template names the field \<^verbatim>\<open>{description_of_allowed_output_files}\<close>, and
      \<^verbatim>\<open>format\<close> gets two positional arguments and no keyword: \<^verbatim>\<open>str.format\<close> raises
      KeyError for the named field.\<close>
  "get_issue_for_un_allowed_files_created s e = Inl KeyError"

definition get_issue_for_forbidden_read :: "DebuggerConverser \<Rightarrow> py_exception \<Rightarrow> RunIssue" where
  "get_issue_for_forbidden_read s e =
     (if Some (file e) = output_filename s then
        \<lparr>issue = ''Your code tries reading from the output file '' @ [DQ] @ file e @ [DQ] @ ''.''
           @ [NL]
           @ ''The code should create and write to this output file, but should not read from it.''
           @ [NL]
           @ ''The only input files from which we can read the data are: '' @ [NL]
           @ str_opt_list (data_filenames s) @ [NL],
         comment = ''Code reads from output file'',
         end_with = None\<rparr>
      else
        \<lparr>issue = ''Your code reads from the file '' @ [DQ] @ file e @ [DQ]
           @ '' which is not part of the dataset.'' @ [NL]
           @ ''We only have these files:'' @ [NL]
           @ str_opt_list (data_filenames s) @ [NL] @ [NL]
           @ ''Note that these input files are located in the same directory as the code. ''
           @ [NL],
         comment = ''Code reads from forbidden file'',
         end_with = None\<rparr>)"

definition get_issue_for_dataframe_series_change :: "DebuggerConverser \<Rightarrow> py_exception \<Rightarrow> RunIssue" where
  "get_issue_for_dataframe_series_change s e =
     \<lparr>issue = ''Your code changes the series '' @ [DQ] @ changed_series e @ [DQ]
        @ '' of your dataframe.'' @ [NL]
        @ ''Instead of changing an existing dataframe series, please create a new series, ''
        @ ''and give it a new sensible name.'' @ [NL],
      comment = ''Code modifies dataframe series'',
      end_with = None\<rparr>"

definition get_issue_for_run_utils_error :: "DebuggerConverser \<Rightarrow> py_exception \<Rightarrow> RunIssue" where
  "get_issue_for_run_utils_error s e =
     \<lparr>issue = message e, comment = ''Code failed RunUtilsError'', end_with = None\<rparr>"

subsection \<open>Checks after a run that raised nothing\<close>

definition py_isspace :: "char \<Rightarrow> bool" where
  \<comment> \<open>\<^verbatim>\<open>str.isspace\<close> on code points below 256.\<close>
  "py_isspace c =
     (let n = of_char c :: nat in (9 \<le> n \<and> n \<le> 13) \<or> (28 \<le> n \<and> n \<le> 32) \<or> n = 133 \<or> n = 160)"

definition py_strip :: "string \<Rightarrow> string" where
  "py_strip t = rev (dropWhile py_isspace (rev (dropWhile py_isspace t)))"

definition get_issues_for_output_file_content ::
  "deps \<Rightarrow> OutputFileRequirement \<Rightarrow> string \<Rightarrow> string \<Rightarrow> error + RunIssue list" where
  "get_issues_for_output_file_content D requirement fname cont =
     (case max_tokens requirement of
        None \<Rightarrow> Inl TypeError
      | Some limit \<Rightarrow>
          let issue0 = None;
              issue1 = (if length (py_strip cont) = 0
                        then Some (''The code created the output file '' @ [DQ] @ fname @ [DQ]
                                   @ '', but the file is just empty! '' @ [NL])
                        else issue0);
              issue2 = (if count_number_of_tokens_in_message D cont > limit
                        then Some (''The code created the output file '' @ [DQ] @ fname @ [DQ]
                                   @ '', but the file is too long!'' @ [NL] @ [NL]
                                   @ ''Here, for context, is the beginning of the output:'' @ [NL]
                                   @ ''```output'' @ [NL]
                                   @ extract_to_nearest_newline D cont limit @ [NL]
                                   @ ''```'' @ [NL] @ [NL]
                                   @ ''Please rewrite the complete code so that only sensible length output is written to the file. ''
                                   @ [NL])
                        else issue1)
          in Inr (case issue2 of
                    None \<Rightarrow> []
                  | Some i \<Rightarrow> [\<lparr>issue = i, comment = ''Output file content'', end_with = None\<rparr>]))"

fun num_files_created_loop :: "CodeAndOutput \<Rightarrow> OutputFileRequirement list \<Rightarrow> error + RunIssue list" where
  "num_files_created_loop cao [] = Inr []"
| "num_files_created_loop cao (requirement # rest) =
     (case map_of (requirements_to_output_files_to_contents cao) requirement of
        None \<Rightarrow> Inl KeyError
      | Some files_to_contents \<Rightarrow>
          let output_files = map fst files_to_contents;
              here =
                (if int (length output_files) < minimal_count requirement then
                   [\<lparr>issue =
                       (if is_wildcard requirement then
                          ''The code was supposed to create at least ''
                          @ str_int (minimal_count requirement) @ '' files of '' @ [DQ]
                          @ filename requirement @ [DQ] @ '', but it only created ''
                          @ str_nat (length output_files) @ '' files of this type.'' @ [NL]
                        else
                          ''The code didn'' @ [SQ] @ ''t generate the desired output file (''
                          @ filename requirement @ '').'' @ [NL]),
                     comment = ''Code did not create all required files'',
                     end_with = None\<rparr>]
                 else [])
          in (case num_files_created_loop cao rest of
                Inl e \<Rightarrow> Inl e
              | Inr others \<Rightarrow> Inr (here @ others)))"

definition get_issues_for_num_files_created :: "DebuggerConverser \<Rightarrow> CodeAndOutput \<Rightarrow> error + RunIssue list" where
  "get_issues_for_num_files_created s cao = num_files_created_loop cao (output_file_requirements s)"

definition get_issues_for_unsaved_dataframes :: "DebuggerConverser \<Rightarrow> CodeAndOutput \<Rightarrow> RunIssue list" where
  "get_issues_for_unsaved_dataframes s cao =
     (if enforce_saving_altered_dataframes s \<and> read_changed_but_unsaved_ids cao \<noteq> [] then
        [\<lparr>issue = ''Your code modifies some of the dataframes:'' @ [NL]
            @ read_but_unsaved_filenames cao @ ''.'' @ [NL]
            @ ''I would like the code to save any such modified dataframe.  '' @ [NL]
            @ ''Please rewrite the complete code again adding `to_csv` to save any modified dataframe in a new file ''
            @ ''in the same directory as the code.'' @ [NL],
          comment = ''Not all modified dataframes were saved'',
          end_with = None\<rparr>]
      else [])"

fun content_files_loop ::
  "deps \<Rightarrow> OutputFileRequirement \<Rightarrow> (string \<times> string) list \<Rightarrow> string list \<Rightarrow> error + RunIssue list" where
  "content_files_loop D requirement files_to_contents [] = Inr []"
| "content_files_loop D requirement files_to_contents (fname # rest) =
     (case map_of files_to_contents fname of
        None \<Rightarrow> Inl KeyError
      | Some cont \<Rightarrow>
          (case get_issues_for_output_file_content D requirement fname cont of
             Inl e \<Rightarrow> Inl e
           | Inr here \<Rightarrow>
               (case content_files_loop D requirement files_to_contents rest of
                  Inl e \<Rightarrow> Inl e
                | Inr others \<Rightarrow> Inr (here @ others))))"

fun created_output_files_loop ::
  "deps \<Rightarrow> CodeAndOutput \<Rightarrow> OutputFileRequirement list \<Rightarrow> error + RunIssue list" where
  "created_output_files_loop D cao [] = Inr []"
| "created_output_files_loop D cao (requirement # rest) =
     (case map_of (requirements_to_output_files_to_contents cao) requirement of
        None \<Rightarrow> Inl KeyError
      | Some files \<Rightarrow>
          (case (if max_tokens requirement \<noteq> None
                 then content_files_loop D requirement (created_content_files_to_contents cao)
                        (map fst files)
                 else Inr []) of
             Inl e \<Rightarrow> Inl e
           | Inr here \<Rightarrow>
               (case created_output_files_loop D cao rest of
                  Inl e \<Rightarrow> Inl e
                | Inr others \<Rightarrow> Inr (here @ others))))"

definition get_issues_for_created_output_files ::
  "deps \<Rightarrow> DebuggerConverser \<Rightarrow> CodeAndOutput \<Rightarrow> error + RunIssue list" where
  "get_issues_for_created_output_files D s cao =
     created_output_files_loop D cao (output_file_requirements s)"

definition get_issue_for_new_code_not_being_a_modification_of_old_code ::
  "deps \<Rightarrow> string \<Rightarrow> string option \<Rightarrow> RunIssue option" where
  \<comment> \<open>The source compares \<^verbatim>\<open>line_count(new_code) < line_count(old_code) * 0.9\<close>; on line
      counts the comparison with the rounded product agrees with \<open>10 * new < 9 * old\<close>.\<close>
  "get_issue_for_new_code_not_being_a_modification_of_old_code D new_code old_code =
     (if 10 * line_count D (Some new_code) < 9 * line_count D old_code then
        Some \<lparr>issue = ''Your code does not seem to be a modification of the previous code.'' @ [NL]
                 @ ''Please rewrite the complete code again, making sure that the new code is a modification of the old code.''
                 @ [NL],
              comment = ''Code is not a modification of previous code.'',
              end_with = None\<rparr>
      else None)"

subsection \<open>Editing the conversation\<close>

definition get_response_count :: "DebuggerConverser \<Rightarrow> int" where
  \<comment> \<open>Python's \<^verbatim>\<open>//\<close> rounds down, as \<open>div\<close> on \<open>int\<close> does.\<close>
  "get_response_count s =
     (int (length (conversation s)) - int (conversation_len_before_first_response s) - 1) div 2"

definition apply_append_user_message ::
  "DebuggerConverser \<Rightarrow> string \<Rightarrow> string option \<Rightarrow> bool \<Rightarrow> DebuggerConverser" where
  \<comment> \<open>Modelled from the spec: \<^verbatim>\<open>apply_append_user_message\<close> of the base class, "append a
      message tagged by role and a debug comment".\<close>
  "apply_append_user_message s c t ig =
     s\<lparr>conversation := append_message (conversation s) USER c t ig\<rparr>"

definition apply_append_surrogate_message ::
  "DebuggerConverser \<Rightarrow> string \<Rightarrow> string option \<Rightarrow> DebuggerConverser" where
  \<comment> \<open>Modelled from the spec: \<^verbatim>\<open>apply_append_surrogate_message\<close> of the base class, an
      append with the role of a message written on the model's behalf.\<close>
  "apply_append_surrogate_message s c t =
     s\<lparr>conversation := append_message (conversation s) SURROGATE c t False\<rparr>"

definition apply_get_and_append_assistant_message :: "DebuggerConverser \<Rightarrow> string \<Rightarrow> DebuggerConverser" where
  \<comment> \<open>Modelled from the spec: \<^verbatim>\<open>apply_get_and_append_assistant_message\<close> of the base class,
      "fetch-and-append the model's next response"; the response is the argument.\<close>
  "apply_get_and_append_assistant_message s resp =
     s\<lparr>conversation := append_message (conversation s) ASSISTANT resp None False\<rparr>"

definition apply_delete_messages :: "DebuggerConverser \<Rightarrow> int list \<Rightarrow> error + DebuggerConverser" where
  "apply_delete_messages s idxs =
     (case delete_messages (conversation s) idxs of
        Inl e \<Rightarrow> Inl e
      | Inr conv \<Rightarrow> Inr (s\<lparr>conversation := conv\<rparr>))"

definition rewind_conversation_to_first_response :: "DebuggerConverser \<Rightarrow> DebuggerConverser" where
  "rewind_conversation_to_first_response s =
     s\<lparr>conversation :=
         rewind_to_first_response (conversation s) (conversation_len_before_first_response s)\<rparr>"

definition code_as_fresh_message :: "string option \<Rightarrow> Message" where
  \<comment> \<open>The message that \<^verbatim>\<open>_post_code_as_fresh\<close> appends.\<close>
  "code_as_fresh_message c =
     \<lparr>role = SURROGATE,
      content = ''Here is the code to perform the requested analysis:'' @ [NL] @ ''```python''
                @ [NL] @ str_opt c @ [NL] @ ''```'',
      tag = Some ''Code is freshly re-posted, as if it was the immediate response.'',
      ignore = False\<rparr>"

definition post_code_as_fresh ::
  "DebuggerConverser \<Rightarrow> string option \<Rightarrow> CodeProblem option \<Rightarrow> DebuggerConverser" where
  "post_code_as_fresh s c code_problem =
     (let s1 = rewind_conversation_to_first_response s;
          s2 = apply_append_surrogate_message s1
                 (content (code_as_fresh_message c)) (tag (code_as_fresh_message c))
      in s2\<lparr>previous_code := c, previous_code_problem := code_problem\<rparr>)"

datatype action = Repost | Leave | Regenerate

definition choose_action :: "int \<Rightarrow> CodeProblem option \<Rightarrow> error + action" where
  \<comment> \<open>The first statement of \<^verbatim>\<open>_respond_to_issues\<close>, which decides on the action.\<close>
  "choose_action response_count code_problem =
     (if response_count = 0 then
        (if code_problem = Some IncompleteBlock then Inr Regenerate
         else if code_problem = Some NotSingleBlock then Inr Leave
         else Inr Repost)
      else
        (case code_problem_gt code_problem StaticCheck of
           Inl e \<Rightarrow> Inl e
         | Inr more_severe \<Rightarrow> if more_severe then Inr Repost else Inr Regenerate))"

datatype issues_arg = Single RunIssue | Many "RunIssue option list"

definition issue_list_of :: "issues_arg \<Rightarrow> RunIssue option list" where
  \<comment> \<open>\<^verbatim>\<open>if isinstance(issues, RunIssue): issues = [issues]\<close>\<close>
  "issue_list_of issues = (case issues of Single i \<Rightarrow> [Some i] | Many l \<Rightarrow> l)"

definition respond_to_issues ::
  "deps \<Rightarrow> DebuggerConverser \<Rightarrow> issues_arg \<Rightarrow> string option \<Rightarrow> CodeProblem option
     \<Rightarrow> error + DebuggerConverser" where
  "respond_to_issues D s issues c code_problem =
     (case choose_action (get_response_count s) code_problem of
        Inl e \<Rightarrow> Inl e
      | Inr act \<Rightarrow>
          let s1 = (if act = Repost then post_code_as_fresh s c code_problem else s);
              issue_list = issue_list_of issues;
              mc = get_message_and_comment D issue_list (prompt_to_append_at_end_of_response s1);
              s2 = apply_append_user_message s1
                     (fst mc @ (if act = Regenerate then [NL, NL] @ ''REGENERATE'' else []))
                     (Some (iteration_str s1 @ '': '' @ snd mc)) False
          in (case (if act = Regenerate then apply_delete_messages s2 [-2, -1] else Inr s2) of
                Inl e \<Rightarrow> Inl e
              | Inr s3 \<Rightarrow>
                  Inr (s3\<lparr>requesting_small_change :=
                            do_all_issues_request_small_change D issue_list\<rparr>)))"

subsection \<open>One iteration\<close>

definition exceptions_to_funcs ::
  "(exc_class \<times> (DebuggerConverser \<Rightarrow> py_exception \<Rightarrow> error + RunIssue)) list" where
  \<comment> \<open>The dict of the source, in its insertion order.\<close>
  "exceptions_to_funcs =
     [(ImportError, \<lambda>s e. Inr (get_issue_for_allowed_packages s e)),
      (TimeoutError, \<lambda>s e. Inr (get_issue_for_timeout s e)),
      (UnAllowedFilesCreated, get_issue_for_un_allowed_files_created),
      (FileNotFoundError, \<lambda>s e. Inr (get_issue_for_file_not_found s e)),
      (CodeUsesForbiddenFunctions, \<lambda>s e. Inr (get_issue_for_forbidden_functions s e)),
      (UnAllowedDataframeMethodCall, \<lambda>s e. Inr (get_issue_for_forbidden_method s e)),
      (CodeImportForbiddenModule, \<lambda>s e. Inr (get_issue_for_forbidden_import s e)),
      (CodeWriteForbiddenFile, \<lambda>s e. Inr (get_issue_for_forbidden_write s e)),
      (CodeReadForbiddenFile, \<lambda>s e. Inr (get_issue_for_forbidden_read s e)),
      (DataFrameSeriesChange, \<lambda>s e. Inr (get_issue_for_dataframe_series_change s e)),
      (RunUtilsError, \<lambda>s e. Inr (get_issue_for_run_utils_error s e))]"

fun first_matching ::
  "(exc_class \<times> 'f) list \<Rightarrow> py_exception \<Rightarrow> 'f option" where
  \<comment> \<open>The \<^verbatim>\<open>for ... if isinstance(...): ... break\<close> loop; \<open>None\<close> is its \<^verbatim>\<open>else\<close> arm.\<close>
  "first_matching [] e = None"
| "first_matching ((e_type, f) # rest) e =
     (if isinstance e e_type then Some f else first_matching rest e)"

definition get_run_time_issue ::
  "DebuggerConverser \<Rightarrow> FailedRunningCode \<Rightarrow> nat \<Rightarrow> error + RunIssue" where
  \<comment> \<open>The \<^verbatim>\<open>except FailedRunningCode as e\<close> arm up to the issue it computes.\<close>
  "get_run_time_issue s err lines_added =
     (case first_matching exceptions_to_funcs (exception err) of
        Some f \<Rightarrow> f s (exception err)
      | None \<Rightarrow> Inr (get_issue_for_regular_exception_or_warning err lines_added))"

fun os_remove_all :: "string set \<Rightarrow> string list \<Rightarrow> error + string set" where
  \<comment> \<open>\<^verbatim>\<open>for file in ...: os.remove(file)\<close>; removing a file that is not there raises.\<close>
  "os_remove_all dir [] = Inr dir"
| "os_remove_all dir (f # fs) =
     (if f \<in> dir then os_remove_all (dir - {f}) fs else Inl (OSFileNotFound f))"

definition respond_and_return_none ::
  "deps \<Rightarrow> DebuggerConverser \<Rightarrow> issues_arg \<Rightarrow> string option \<Rightarrow> CodeProblem option
     \<Rightarrow> error + (DebuggerConverser \<times> CodeAndOutput option)" where
  \<comment> \<open>\<^verbatim>\<open>self._respond_to_issues(...); return None\<close>\<close>
  "respond_and_return_none D s issues c code_problem =
     (case respond_to_issues D s issues c code_problem of
        Inl e \<Rightarrow> Inl e
      | Inr s' \<Rightarrow> Inr (s', None))"

definition collect_output_issues ::
  "deps \<Rightarrow> DebuggerConverser \<Rightarrow> CodeAndOutput \<Rightarrow> RunIssue list \<Rightarrow> error + RunIssue list" where
  "collect_output_issues D s cao collected =
     (case get_issues_for_num_files_created s cao of
        Inl e \<Rightarrow> Inl e
      | Inr i1 \<Rightarrow>
          (case get_issues_for_created_output_files D s cao of
             Inl e \<Rightarrow> Inl e
           | Inr i4 \<Rightarrow> Inr (i1 @ collected @ get_issues_for_unsaved_dataframes s cao @ i4)))"

definition check_outputs ::
  "deps \<Rightarrow> DebuggerConverser \<Rightarrow> string \<Rightarrow> CodeAndOutput \<Rightarrow> RunIssue list
     \<Rightarrow> error + (DebuggerConverser \<times> CodeAndOutput option)" where
  \<comment> \<open>The part of \<^verbatim>\<open>_get_code_and_respond_to_issues\<close> after a run that raised nothing.\<close>
  "check_outputs D s c cao collected =
     (case collect_output_issues D s cao collected of
        Inl e \<Rightarrow> Inl e
      | Inr output_issues \<Rightarrow>
          if output_issues \<noteq> [] then
            (case os_remove_all (data_folder s) (created_data_files cao) of
               Inl e \<Rightarrow> Inl e
             | Inr dir \<Rightarrow>
                 respond_and_return_none D (s\<lparr>data_folder := dir\<rparr>)
                   (Many (map Some output_issues)) (Some c) (Some OutputFileContent))
          else Inr (s, Some cao))"

definition after_run :: "attempt \<Rightarrow> DebuggerConverser \<Rightarrow> DebuggerConverser" where
  \<comment> \<open>The state once \<^verbatim>\<open>code_runner.run_code()\<close> has returned or raised: one more run, and
      the data folder as the run left it.\<close>
  "after_run a s = s\<lparr>run_code_calls := Suc (run_code_calls s), data_folder := folder_after_run a\<rparr>"

definition run_extracted_code ::
  "deps \<Rightarrow> attempt \<Rightarrow> DebuggerConverser \<Rightarrow> string
     \<Rightarrow> error + (DebuggerConverser \<times> CodeAndOutput option)" where
  \<comment> \<open>The part of \<^verbatim>\<open>_get_code_and_respond_to_issues\<close> after the extraction of the code.\<close>
  "run_extracted_code D a s c =
     (let static_code_check_issues =
            (if requesting_small_change s
             then [get_issue_for_new_code_not_being_a_modification_of_old_code D c (previous_code s)]
             else [])
            @ map Some (get_issues_for_static_code_check c)
      in if static_code_check_issues \<noteq> [] then
           respond_and_return_none D s (Many static_code_check_issues) (Some c) (Some StaticCheck)
         else
           let s1 = after_run a s
           in (case run_code a of
                 Inl err \<Rightarrow>
                   (case get_run_time_issue s1 err (lines_added_in_front_of_code a) of
                      Inl e \<Rightarrow> Inl e
                    | Inr run_time_issue \<Rightarrow>
                        respond_and_return_none D s1 (Single run_time_issue) (Some c)
                          (Some RuntimeError))
               | Inr (cao, collected) \<Rightarrow> check_outputs D s1 c cao collected))"

definition after_response :: "attempt \<Rightarrow> DebuggerConverser \<Rightarrow> DebuggerConverser" where
  \<comment> \<open>The state once the response is appended, the runner is built from it and
      \<^verbatim>\<open>extract_code()\<close> has been called.\<close>
  "after_response a s =
     (let s1 = apply_get_and_append_assistant_message s (response a)
      in s1\<lparr>runner_constructions := Suc (runner_constructions s1),
             extract_code_calls := Suc (extract_code_calls s1)\<rparr>)"

definition get_code_and_respond_to_issues ::
  "deps \<Rightarrow> attempt \<Rightarrow> DebuggerConverser \<Rightarrow> error + (DebuggerConverser \<times> CodeAndOutput option)" where
  "get_code_and_respond_to_issues D a s =
     (let s2 = after_response a s
      in case extract_code a of
           IncompleteBlockFailedExtractingBlock \<Rightarrow>
             (let (i, s3) = get_issue_for_incomplete_code D s2
              in respond_and_return_none D s3 (Single i) None (Some IncompleteBlock))
         | FailedExtractingBlock e \<Rightarrow>
             respond_and_return_none D s2 (Single (get_issue_for_missing_or_multiple_code e))
               None (Some NotSingleBlock)
         | Extracted c \<Rightarrow> run_extracted_code D a s2 c)"

subsection \<open>The loop\<close>





definition corrective_message :: "deps \<Rightarrow> DebuggerConverser \<Rightarrow> issues_arg \<Rightarrow> action \<Rightarrow> Message" where
  \<comment> \<open>The user message that \<^verbatim>\<open>_respond_to_issues\<close> appends under the given action.\<close>
  "corrective_message D s issues act =
     (let mc = get_message_and_comment D (issue_list_of issues)
                 (prompt_to_append_at_end_of_response s)
      in \<lparr>role = USER,
          content = fst mc @ (if act = Regenerate then [NL, NL] @ ''REGENERATE'' else []),
          tag = Some (iteration_str s @ '': '' @ snd mc),
          ignore = False\<rparr>)"

definition same_outside_conversation :: "DebuggerConverser \<Rightarrow> DebuggerConverser \<Rightarrow> bool" where
  \<comment> \<open>The two states agree on everything but the conversation and the three fields that
      \<^verbatim>\<open>_respond_to_issues\<close> assigns.\<close>
  "same_outside_conversation s s' =
     (conversation_len_before_first_response s' = conversation_len_before_first_response s
      \<and> data_folder s' = data_folder s
      \<and> data_filenames s' = data_filenames s
      \<and> output_file_requirements s' = output_file_requirements s
      \<and> enforce_saving_altered_dataframes s' = enforce_saving_altered_dataframes s
      \<and> supported_packages s' = supported_packages s
      \<and> prompt_to_append_at_end_of_response s' = prompt_to_append_at_end_of_response s
      \<and> model_engine s' = model_engine s
      \<and> max_debug_iterations s' = max_debug_iterations s
      \<and> debug_iteration s' = debug_iteration s
      \<and> runner_constructions s' = runner_constructions s
      \<and> extract_code_calls s' = extract_code_calls s
      \<and> run_code_calls s' = run_code_calls s)"

subsection \<open>Concrete inputs\<close>

definition example_deps :: deps where
  "example_deps =
     \<lparr>get_message_and_comment =
        (\<lambda>l e. (concat (map (\<lambda>i. case i of None \<Rightarrow> [] | Some r \<Rightarrow> issue r) l) @ e, ''issues'')),
      do_all_issues_request_small_change = (\<lambda>l. False),
      MAX_MODEL_ENGINE = 1,
      get_next = Suc,
      str_model_engine = (\<lambda>n. ''engine '' @ str_nat n),
      count_number_of_tokens_in_message = (\<lambda>t. int (length t)),
      extract_to_nearest_newline = (\<lambda>t n. take (nat n) t),
      line_count = (\<lambda>t. case t of None \<Rightarrow> 0 | Some u \<Rightarrow> int (length (filter (\<lambda>c. c = NL) u)) + 1),
      initialize_conversation_if_needed = (\<lambda>s. s)\<rparr>"

definition example_state :: DebuggerConverser where
  "example_state =
     \<lparr>conversation = [\<lparr>role = USER, content = ''Please write the code.'', tag = None, ignore = False\<rparr>],
      conversation_len_before_first_response = 1,
      data_folder = {''data.csv''},
      data_filenames = Some [''data.csv''],
      output_file_requirements =
        [\<lparr>filename = ''results.txt'', minimal_count = 1, is_wildcard = False, max_tokens = Some 100\<rparr>],
      enforce_saving_altered_dataframes = False,
      supported_packages = [''numpy'', ''statsmodels''],
      prompt_to_append_at_end_of_response = ''Please rewrite the complete code.'',
      model_engine = 0,
      max_debug_iterations = 1,
      debug_iteration = 0,
      previous_code = None,
      requesting_small_change = False,
      previous_code_problem = Some NoCode,
      runner_constructions = 0,
      extract_code_calls = 0,
      run_code_calls = 0\<rparr>"

definition example_state_first :: DebuggerConverser where
  \<comment> \<open>After the first response of the model: the response count is 0.\<close>
  "example_state_first =
     example_state\<lparr>conversation :=
       conversation example_state
       @ [\<lparr>role = ASSISTANT, content = ''```python'', tag = None, ignore = False\<rparr>]\<rparr>"

definition example_state_second :: DebuggerConverser where
  \<comment> \<open>After the second response of the model: the response count is 1.\<close>
  "example_state_second =
     example_state\<lparr>conversation :=
       conversation example_state
       @ [\<lparr>role = SURROGATE, content = ''code 1'', tag = None, ignore = False\<rparr>,
          \<lparr>role = USER, content = ''There is a bug.'', tag = None, ignore = False\<rparr>,
          \<lparr>role = ASSISTANT, content = ''code 2'', tag = None, ignore = False\<rparr>]\<rparr>"

definition example_issue :: RunIssue where
  "example_issue = \<lparr>issue = ''Something went wrong.'', comment = ''Example'', end_with = None\<rparr>"



definition example_exception :: py_exception where
  "example_exception =
     \<lparr>classes = [OtherClass ''ValueError'', OtherClass ''Exception''],
      exc_str = ''invalid literal'',
      fromlist = None, func = [], method_name = [], module = [], file = [],
      un_allowed_files = [], changed_series = [], message = []\<rparr>"






definition example_code_and_output :: CodeAndOutput where
  "example_code_and_output =
     \<lparr>code = ''df.to_csv(...)'',
      requirements_to_output_files_to_contents =
        [(\<lparr>filename = ''results.txt'', minimal_count = 1, is_wildcard = False,
           max_tokens = Some 100\<rparr>, [])],
      created_content_files_to_contents = [],
      created_data_files = [''table.csv''],
      read_changed_but_unsaved_ids = [],
      read_but_unsaved_filenames = []\<rparr>"

definition missing_output_attempt :: attempt where
  "missing_output_attempt =
     \<lparr>response = ''code'',
      extract_code = Extracted ''df.to_csv(...)'',
      lines_added_in_front_of_code = 2,
      run_code = Inr (example_code_and_output, []),
      folder_after_run = {''data.csv'', ''table.csv''}\<rparr>"

definition example_output_read :: py_exception where
  "example_output_read =
     example_exception\<lparr>classes := [CodeReadForbiddenFile], file := ''results.txt''\<rparr>"

definition example_other_read :: py_exception where
  "example_other_read =
     example_exception\<lparr>classes := [CodeReadForbiddenFile], file := ''other.csv''\<rparr>"




section \<open>Auxiliary facts\<close>

subsection \<open>Deleting the last two messages\<close>

lemma zip_upt_snoc2:
  "zip (xs @ [a, b]) [0..<length xs + 2] = zip xs [0..<length xs] @ [(a, length xs), (b, Suc (length xs))]"
proof -
  have "[0..<length xs + 2] = [0..<length xs] @ [length xs, Suc (length xs)]"
    by (simp add: upt_rec[of "length xs"])
  thus ?thesis by simp
qed

lemma delete_last_two:
  "delete_messages (xs @ [a, b]) [-2, -1] = Inr xs"
proof -
  have r: "resolve_indices (length xs + 2) [-2, -1] = Inr [length xs, Suc (length xs)]"
    by (simp add: resolve_index_def Let_def)
  have f: "filter (\<lambda>(m, k). k \<notin> set [length xs, Suc (length xs)]) (zip xs [0..<length xs]) = zip xs [0..<length xs]"
    by (rule filter_True) (auto simp: set_zip)
  have m: "map fst (zip xs [0..<length xs]) = xs"
    by (simp add: map_fst_zip)
  show ?thesis
    unfolding delete_messages_def
    using r f m by (simp add: zip_upt_snoc2)
qed

subsection \<open>What an iteration leaves alone\<close>

lemma apply_delete_messages_frame:
  "apply_delete_messages s idxs = Inr s' \<Longrightarrow> \<exists>conv. s' = s\<lparr>conversation := conv\<rparr>"
  by (auto simp: apply_delete_messages_def split: sum.splits)


lemma choose_action_some: "\<exists>act. choose_action rc (Some y) = Inr act"
  by (simp add: choose_action_def code_problem_gt_def)

lemma respond_total:
  assumes "cp \<noteq> None" "conversation s \<noteq> []"
  shows "\<exists>s'. respond_to_issues D s issues c cp = Inr s'"
proof -
  from assms(1) obtain y where "cp = Some y" by auto
  then obtain act where a: "choose_action (get_response_count s) cp = Inr act"
    using choose_action_some by blast
  from assms(2) obtain before rejected where b: "conversation s = before @ [rejected]"
    by (metis rev_exhaust)
  show ?thesis
  proof (cases act)
    case Regenerate
    with a b show ?thesis
      by (simp add: respond_to_issues_def Let_def apply_delete_messages_def
          apply_append_user_message_def append_message_def delete_last_two)
  qed (use a in \<open>simp_all add: respond_to_issues_def Let_def\<close>)
qed







subsection \<open>The loop\<close>






subsection \<open>The dispatch on the kind of the exception\<close>







subsection \<open>The concrete inputs\<close>


lemma example_output_filename: "output_filename example_state = Some ''results.txt''"
  by (simp add: output_filename_def get_single_content_file_from_requirements_def
      example_state_def)

lemma rc_first: "get_response_count example_state_first = 0"
  by (simp add: get_response_count_def example_state_first_def example_state_def)

lemma rc_second: "get_response_count example_state_second = 1"
  by (simp add: get_response_count_def example_state_second_def example_state_def)

subsection \<open>Removing the created files\<close>

lemma os_remove_all_ok:
  assumes "set fs \<subseteq> dir" and "distinct fs"
  shows "os_remove_all dir fs = Inr (dir - set fs)"
  using assms
proof (induction fs arbitrary: dir)
  case Nil
  then show ?case by simp
next
  case (Cons f fs)
  from Cons.prems have "set fs \<subseteq> dir - {f}" and "distinct fs" and "f \<in> dir"
    by auto
  with Cons.IH[of "dir - {f}"] have "os_remove_all (dir - {f}) fs = Inr (dir - {f} - set fs)"
    by simp
  moreover have "dir - {f} - set fs = dir - set (f # fs)" by auto
  ultimately show ?case using \<open>f \<in> dir\<close> by simp
qed

lemma collect_output_issues_cong:
  assumes "output_file_requirements s' = output_file_requirements s"
    and "enforce_saving_altered_dataframes s' = enforce_saving_altered_dataframes s"
  shows "collect_output_issues D s' cao collected = collect_output_issues D s cao collected"
proof -
  have "get_issues_for_num_files_created s' cao = get_issues_for_num_files_created s cao"
    using assms(1) by (simp add: get_issues_for_num_files_created_def)
  moreover have "get_issues_for_created_output_files D s' cao
                   = get_issues_for_created_output_files D s cao"
    using assms(1) by (simp add: get_issues_for_created_output_files_def)
  moreover have "get_issues_for_unsaved_dataframes s' cao = get_issues_for_unsaved_dataframes s cao"
    using assms(2) by (simp add: get_issues_for_unsaved_dataframes_def)
  ultimately show ?thesis
    unfolding collect_output_issues_def by (simp only:)
qed

lemma respond_none_repost_total:
  assumes "choose_action (get_response_count s) cp = Inr Repost"
  shows "\<exists>s'. respond_and_return_none D s issues c cp = Inr (s', None)
           \<and> same_outside_conversation s s'
           \<and> last (conversation s') = corrective_message D s issues Repost"
  using assms
  by (simp add: respond_and_return_none_def respond_to_issues_def Let_def post_code_as_fresh_def
      code_as_fresh_message_def rewind_conversation_to_first_response_def
      apply_append_surrogate_message_def apply_append_user_message_def append_message_def
      corrective_message_def iteration_str_def same_outside_conversation_def)

subsection \<open>What the texts of the issues contain\<close>

lemma sublist_in_right: "sublist x zs \<Longrightarrow> sublist x (ys @ zs)"
  by (simp add: sublist_append)

lemma sublist_in_left: "sublist x ys \<Longrightarrow> sublist x (ys @ zs)"
  by (simp add: sublist_append)

lemma join_str_member:
  assumes "x \<in> set xs"
  shows "sublist x (join_str sep xs)"
  using assms
proof (induction sep xs rule: join_str.induct)
  case (1 sep)
  then show ?case by simp
next
  case (2 sep y)
  then show ?case by simp
next
  case (3 sep y z zs)
  show ?case
  proof (cases "x = y")
    case True
    then show ?thesis by simp
  next
    case False
    with 3 have "sublist x (join_str sep (z # zs))" by simp
    hence "sublist x ((y @ sep) @ join_str sep (z # zs))"
      by (rule sublist_in_right)
    then show ?thesis by simp
  qed
qed


lemma str_list_member:
  assumes "p \<in> set ps"
  shows "sublist (repr_str p) (str_list ps)"
proof -
  have "sublist (repr_str p) (join_str '', '' (map repr_str ps))"
    using assms by (intro join_str_member) simp
  thus ?thesis
    unfolding str_list_def by (metis sublist_in_left sublist_in_right)
qed



lemma sublist_trans_str: "sublist a b \<Longrightarrow> sublist b c \<Longrightarrow> sublist a c"
  using sublist_order.order_trans by blast



section \<open>The claims\<close>

subsection \<open>Choosing the action\<close>



subsection \<open>The three actions\<close>

text \<open>
  Claim C5. When repost is selected, the controller rewinds the conversation to the first
  response, appends the code as a message of its own, as if it had been that response, then
  the corrective message, and sets \<^verbatim>\<open>previous_code\<close> to the code and
  \<^verbatim>\<open>_previous_code_problem\<close> to the classification of the issue.
\<close>

theorem repost_rewinds_and_posts_code:
  assumes "choose_action (get_response_count s) cp = Inr Repost"
  shows "\<exists>s'. respond_to_issues D s issues c cp = Inr s'
           \<and> conversation s' =
               rewind_to_first_response (conversation s) (conversation_len_before_first_response s)
               @ [code_as_fresh_message c, corrective_message D s issues Repost]
           \<and> rewind_to_first_response (conversation s) (conversation_len_before_first_response s)
               = take (conversation_len_before_first_response s + 1) (conversation s)
           \<and> previous_code s' = c
           \<and> previous_code_problem s' = cp"
  using assms
  by (simp add: respond_to_issues_def Let_def post_code_as_fresh_def code_as_fresh_message_def
      rewind_conversation_to_first_response_def apply_append_surrogate_message_def
      apply_append_user_message_def append_message_def corrective_message_def iteration_str_def
      rewind_to_first_response_def)

theorem repost_rewinds_and_posts_code_witness:
  "choose_action (get_response_count example_state_second) (Some RuntimeError) = Inr Repost
   \<and> (\<exists>s'. respond_to_issues example_deps example_state_second (Single example_issue)
                 (Some ''code 2'') (Some RuntimeError) = Inr s'
           \<and> conversation s' =
               rewind_to_first_response (conversation example_state_second)
                 (conversation_len_before_first_response example_state_second)
               @ [code_as_fresh_message (Some ''code 2''),
                  corrective_message example_deps example_state_second (Single example_issue) Repost]
           \<and> rewind_to_first_response (conversation example_state_second)
                 (conversation_len_before_first_response example_state_second)
               = take (conversation_len_before_first_response example_state_second + 1)
                   (conversation example_state_second)
           \<and> previous_code s' = Some ''code 2''
           \<and> previous_code_problem s' = Some RuntimeError)"
proof -
  have h: "choose_action (get_response_count example_state_second) (Some RuntimeError) = Inr Repost"
    by (simp add: rc_second choose_action_def code_problem_gt_def)
  from repost_rewinds_and_posts_code[OF h] h show ?thesis by blast
qed

text \<open>
  Claim C6. When regenerate is selected, the controller appends the corrective user message
  and then deletes the last two messages, the rejected answer of the model and the
  correction, so that the conversation is as long as it was before the rejected answer.
\<close>

theorem regenerate_drops_rejected_answer:
  assumes "choose_action (get_response_count s) cp = Inr Regenerate"
    and "conversation s = before @ [rejected]"
  shows "\<exists>s'. respond_to_issues D s issues c cp = Inr s'
           \<and> delete_messages (conversation s @ [corrective_message D s issues Regenerate]) [-2, -1]
               = Inr (conversation s')
           \<and> conversation s' = before
           \<and> length (conversation s') = length (conversation s) - 1"
  using assms
  by (simp add: respond_to_issues_def Let_def apply_delete_messages_def
      apply_append_user_message_def append_message_def delete_last_two)

theorem regenerate_drops_rejected_answer_witness:
  "choose_action (get_response_count example_state_first) (Some IncompleteBlock) = Inr Regenerate
   \<and> conversation example_state_first =
       conversation example_state
       @ [\<lparr>role = ASSISTANT, content = ''```python'', tag = None, ignore = False\<rparr>]
   \<and> (\<exists>s'. respond_to_issues example_deps example_state_first (Single example_issue) None
               (Some IncompleteBlock) = Inr s'
           \<and> conversation s' = conversation example_state
           \<and> length (conversation s') = length (conversation example_state_first) - 1)"
proof -
  have h1: "choose_action (get_response_count example_state_first) (Some IncompleteBlock)
              = Inr Regenerate"
    by (simp add: rc_first choose_action_def)
  have h2: "conversation example_state_first =
       conversation example_state
       @ [\<lparr>role = ASSISTANT, content = ''```python'', tag = None, ignore = False\<rparr>]"
    by (simp add: example_state_first_def)
  from regenerate_drops_rejected_answer[OF h1 h2] h1 h2 show ?thesis by blast
qed

text \<open>
  Claim C10. An invocation of \<^verbatim>\<open>_respond_to_issues\<close> whose action is leave or
  regenerate leaves \<^verbatim>\<open>previous_code\<close> and \<^verbatim>\<open>_previous_code_problem\<close> as they were;
  only repost assigns them. \<^verbatim>\<open>_requesting_small_change\<close> is recomputed from the issue
  collector on every invocation, whatever the action.
\<close>

theorem respond_to_issues_frame:
  "(\<forall>s'. respond_to_issues D s issues c cp = Inr s' \<longrightarrow>
        (choose_action (get_response_count s) cp \<noteq> Inr Repost \<longrightarrow>
           previous_code s' = previous_code s
           \<and> previous_code_problem s' = previous_code_problem s)
        \<and> (choose_action (get_response_count s) cp = Inr Repost \<longrightarrow>
           previous_code s' = c \<and> previous_code_problem s' = cp)
        \<and> requesting_small_change s'
            = do_all_issues_request_small_change D (issue_list_of issues))
   \<and> (cp \<noteq> None \<and> conversation s \<noteq> [] \<longrightarrow>
        (\<exists>s'. respond_to_issues D s issues c cp = Inr s'))"
proof -
  have frame: "(choose_action (get_response_count s) cp \<noteq> Inr Repost \<longrightarrow>
           previous_code s' = previous_code s
           \<and> previous_code_problem s' = previous_code_problem s)
        \<and> (choose_action (get_response_count s) cp = Inr Repost \<longrightarrow>
           previous_code s' = c \<and> previous_code_problem s' = cp)
        \<and> requesting_small_change s'
            = do_all_issues_request_small_change D (issue_list_of issues)"
    if r: "respond_to_issues D s issues c cp = Inr s'" for s'
  proof -
    from r obtain act where a: "choose_action (get_response_count s) cp = Inr act"
      by (auto simp: respond_to_issues_def split: sum.splits)
    show ?thesis
    proof (cases act)
      case Repost
      with r a show ?thesis
        by (auto simp: respond_to_issues_def Let_def post_code_as_fresh_def
            rewind_conversation_to_first_response_def apply_append_surrogate_message_def
            apply_append_user_message_def)
    next
      case Leave
      with r a show ?thesis
        by (auto simp: respond_to_issues_def Let_def apply_append_user_message_def)
    next
      case Regenerate
      with r a show ?thesis
        by (auto simp: respond_to_issues_def Let_def apply_append_user_message_def
            split: sum.splits dest!: apply_delete_messages_frame)
    qed
  qed
  have total: "\<exists>s'. respond_to_issues D s issues c cp = Inr s'"
    if "cp \<noteq> None \<and> conversation s \<noteq> []"
    using that respond_total by blast
  from frame total show ?thesis by blast
qed

theorem respond_to_issues_frame_witness:
  "Some NotSingleBlock \<noteq> None
   \<and> conversation example_state_first \<noteq> []
   \<and> choose_action (get_response_count example_state_first) (Some NotSingleBlock) \<noteq> Inr Repost
   \<and> (\<exists>s'. respond_to_issues example_deps example_state_first (Single example_issue) None
          (Some NotSingleBlock) = Inr s'
       \<and> previous_code s' = previous_code example_state_first
       \<and> previous_code_problem s' = previous_code_problem example_state_first
       \<and> requesting_small_change s'
           = do_all_issues_request_small_change example_deps (issue_list_of (Single example_issue)))"
proof -
  have ne: "Some NotSingleBlock \<noteq> None \<and> conversation example_state_first \<noteq> []"
    by (simp add: example_state_first_def)
  have h: "choose_action (get_response_count example_state_first) (Some NotSingleBlock) \<noteq> Inr Repost"
    by (simp add: rc_first choose_action_def)
  from respond_to_issues_frame[of example_deps example_state_first "Single example_issue" None
      "Some NotSingleBlock"] ne h
  show ?thesis by blast
qed

subsection \<open>Classifying a failure of the run\<close>






text \<open>
  Claim C9. The issue for a forbidden read explains that the output file must not be read
  back exactly when the offending file is the sole content-output file that was declared;
  for any other file the issue is the one that lists the declared input files.
\<close>

theorem forbidden_read_issue:
  "(prefix ''Your code tries reading from the output file '' (issue (get_issue_for_forbidden_read s e))
      \<longleftrightarrow> output_filename s = Some (file e))
   \<and> (comment (get_issue_for_forbidden_read s e) = ''Code reads from output file''
      \<longleftrightarrow> output_filename s = Some (file e))
   \<and> (output_filename s = Some (file e) \<longrightarrow>
        sublist ''The code should create and write to this output file, but should not read from it.''
          (issue (get_issue_for_forbidden_read s e)))
   \<and> (output_filename s \<noteq> Some (file e) \<longrightarrow>
        comment (get_issue_for_forbidden_read s e) = ''Code reads from forbidden file''
        \<and> prefix (''Your code reads from the file '' @ [DQ] @ file e @ [DQ]
                   @ '' which is not part of the dataset.'' @ [NL]
                   @ ''We only have these files:'' @ [NL]
                   @ str_opt_list (data_filenames s) @ [NL])
            (issue (get_issue_for_forbidden_read s e))
        \<and> (\<forall>fs f. data_filenames s = Some fs \<and> f \<in> set fs \<longrightarrow>
               sublist (repr_str f) (issue (get_issue_for_forbidden_read s e))))"
proof (cases "output_filename s = Some (file e)")
  case True
  hence i: "issue (get_issue_for_forbidden_read s e) =
      (''Your code tries reading from the output file '' @ [DQ] @ file e @ [DQ] @ ''.'' @ [NL])
      @ ''The code should create and write to this output file, but should not read from it.''
      @ ([NL] @ ''The only input files from which we can read the data are: '' @ [NL]
         @ str_opt_list (data_filenames s) @ [NL])"
    by (simp add: get_issue_for_forbidden_read_def)
  have "sublist ''The code should create and write to this output file, but should not read from it.''
          (issue (get_issue_for_forbidden_read s e))"
    unfolding i by (rule sublist_appendI)
  moreover have "prefix ''Your code tries reading from the output file ''
      (issue (get_issue_for_forbidden_read s e))"
    using True by (simp add: get_issue_for_forbidden_read_def)
  moreover have "comment (get_issue_for_forbidden_read s e) = ''Code reads from output file''"
    using True by (simp add: get_issue_for_forbidden_read_def)
  ultimately show ?thesis using True by simp
next
  case False
  hence ne: "Some (file e) \<noteq> output_filename s" by auto
  have "\<not> prefix ''Your code tries reading from the output file ''
      (issue (get_issue_for_forbidden_read s e))"
    using ne by (simp add: get_issue_for_forbidden_read_def)
  moreover have "comment (get_issue_for_forbidden_read s e) = ''Code reads from forbidden file''"
    using ne by (simp add: get_issue_for_forbidden_read_def)
  moreover have "prefix (''Your code reads from the file '' @ [DQ] @ file e @ [DQ]
                   @ '' which is not part of the dataset.'' @ [NL]
                   @ ''We only have these files:'' @ [NL]
                   @ str_opt_list (data_filenames s) @ [NL])
            (issue (get_issue_for_forbidden_read s e))"
    using ne by (simp add: get_issue_for_forbidden_read_def)
  moreover have "\<forall>fs f. data_filenames s = Some fs \<and> f \<in> set fs \<longrightarrow>
               sublist (repr_str f) (issue (get_issue_for_forbidden_read s e))"
  proof (intro allI impI)
    fix fs f
    assume a: "data_filenames s = Some fs \<and> f \<in> set fs"
    hence "issue (get_issue_for_forbidden_read s e) =
        (''Your code reads from the file '' @ [DQ] @ file e @ [DQ]
           @ '' which is not part of the dataset.'' @ [NL] @ ''We only have these files:'' @ [NL])
        @ str_list fs
        @ ([NL] @ [NL]
           @ ''Note that these input files are located in the same directory as the code. ''
           @ [NL])"
      using ne by (simp add: get_issue_for_forbidden_read_def str_opt_list_def)
    hence "sublist (str_list fs) (issue (get_issue_for_forbidden_read s e))"
      by (metis sublist_appendI)
    moreover have "sublist (repr_str f) (str_list fs)"
      using a by (intro str_list_member) simp
    ultimately show "sublist (repr_str f) (issue (get_issue_for_forbidden_read s e))"
      by (rule sublist_trans_str[rotated])
  qed
  ultimately show ?thesis using False by simp
qed

theorem forbidden_read_issue_witness:
  "output_filename example_state = Some (file example_output_read)
   \<and> prefix ''Your code tries reading from the output file ''
        (issue (get_issue_for_forbidden_read example_state example_output_read))
   \<and> sublist ''The code should create and write to this output file, but should not read from it.''
        (issue (get_issue_for_forbidden_read example_state example_output_read))
   \<and> output_filename example_state \<noteq> Some (file example_other_read)
   \<and> \<not> prefix ''Your code tries reading from the output file ''
        (issue (get_issue_for_forbidden_read example_state example_other_read))
   \<and> comment (get_issue_for_forbidden_read example_state example_other_read)
       = ''Code reads from forbidden file''
   \<and> data_filenames example_state = Some [''data.csv'']
   \<and> sublist (repr_str ''data.csv'')
        (issue (get_issue_for_forbidden_read example_state example_other_read))"
proof -
  have h3: "data_filenames example_state = Some [''data.csv''] \<and> ''data.csv'' \<in> set [''data.csv'']"
    by (simp add: example_state_def)
  have h1: "output_filename example_state = Some (file example_output_read)"
    by (simp add: example_output_filename example_output_read_def)
  have h2: "output_filename example_state \<noteq> Some (file example_other_read)"
    by (simp add: example_output_filename example_other_read_def)
  from forbidden_read_issue[of example_state example_output_read]
    forbidden_read_issue[of example_state example_other_read] h1 h2 h3
  show ?thesis by blast
qed

subsection \<open>Classifiers and the controller state\<close>




subsection \<open>A run with faulty output\<close>

text \<open>
  Claim C7. When the run raises nothing and the checks after the run give at least one
  issue (missing files, issues collected during the run, unsaved dataframes, bad content of
  an output file), the iteration returns None, so the \<^verbatim>\<open>CodeAndOutput\<close> is dropped, and
  every data file that the run created is removed from the data folder before the
  corrective message is posted: \<^verbatim>\<open>_respond_to_issues\<close> is called on the state whose folder
  no longer has these files.
\<close>

theorem faulty_output_is_discarded_and_files_deleted:
  assumes "extract_code a = Extracted c"
    and "\<not> requesting_small_change s"
    and "run_code a = Inr (cao, collected)"
    and "collect_output_issues D s cao collected = Inr output_issues"
    and "output_issues \<noteq> []"
    and "set (created_data_files cao) \<subseteq> folder_after_run a"
    and "distinct (created_data_files cao)"
  shows "get_code_and_respond_to_issues D a s =
           respond_and_return_none D
             ((after_run a (after_response a s))
                \<lparr>data_folder := folder_after_run a - set (created_data_files cao)\<rparr>)
             (Many (map Some output_issues)) (Some c) (Some OutputFileContent)
         \<and> (\<exists>s'. get_code_and_respond_to_issues D a s = Inr (s', None)
               \<and> data_folder s' = folder_after_run a - set (created_data_files cao)
               \<and> (\<forall>f \<in> set (created_data_files cao). f \<notin> data_folder s')
               \<and> last (conversation s') =
                   corrective_message D
                     ((after_run a (after_response a s))
                        \<lparr>data_folder := folder_after_run a - set (created_data_files cao)\<rparr>)
                     (Many (map Some output_issues)) Repost)"
proof -
  let ?s1 = "after_run a (after_response a s)"
  let ?s2 = "?s1\<lparr>data_folder := folder_after_run a - set (created_data_files cao)\<rparr>"
  have r: "\<not> requesting_small_change (after_response a s)"
    using assms(2)
    by (simp add: after_response_def Let_def apply_get_and_append_assistant_message_def)
  have "collect_output_issues D ?s1 cao collected = collect_output_issues D s cao collected"
    by (rule collect_output_issues_cong)
      (simp_all add: after_run_def after_response_def Let_def
        apply_get_and_append_assistant_message_def)
  hence ci: "collect_output_issues D ?s1 cao collected = Inr output_issues"
    using assms(4) by simp
  have df: "data_folder ?s1 = folder_after_run a"
    by (simp add: after_run_def)
  have rm: "os_remove_all (data_folder ?s1) (created_data_files cao)
              = Inr (folder_after_run a - set (created_data_files cao))"
    using os_remove_all_ok[OF assms(6,7)] df by simp
  have co: "check_outputs D ?s1 c cao collected =
              respond_and_return_none D ?s2 (Many (map Some output_issues)) (Some c)
                (Some OutputFileContent)"
    using ci rm assms(5) by (simp add: check_outputs_def)
  have eq: "get_code_and_respond_to_issues D a s =
              respond_and_return_none D ?s2 (Many (map Some output_issues)) (Some c)
                (Some OutputFileContent)"
    using assms(1,3) r co
    by (simp add: get_code_and_respond_to_issues_def run_extracted_code_def Let_def
        get_issues_for_static_code_check_def)
  have "choose_action (get_response_count ?s2) (Some OutputFileContent) = Inr Repost"
    by (simp add: choose_action_def code_problem_gt_def)
  from respond_none_repost_total[OF this, of D "Many (map Some output_issues)" "Some c"]
  obtain s' where s': "respond_and_return_none D ?s2 (Many (map Some output_issues)) (Some c)
      (Some OutputFileContent) = Inr (s', None)"
    and fr: "same_outside_conversation ?s2 s'"
    and la: "last (conversation s') = corrective_message D ?s2 (Many (map Some output_issues)) Repost"
    by blast
  have d: "data_folder s' = folder_after_run a - set (created_data_files cao)"
    using fr by (simp add: same_outside_conversation_def)
  from eq s' d la show ?thesis by auto
qed

theorem faulty_output_is_discarded_and_files_deleted_witness:
  "extract_code missing_output_attempt = Extracted ''df.to_csv(...)''
   \<and> \<not> requesting_small_change example_state
   \<and> run_code missing_output_attempt = Inr (example_code_and_output, [])
   \<and> (\<exists>output_issues.
         collect_output_issues example_deps example_state example_code_and_output []
           = Inr output_issues \<and> output_issues \<noteq> [])
   \<and> set (created_data_files example_code_and_output) \<subseteq> folder_after_run missing_output_attempt
   \<and> distinct (created_data_files example_code_and_output)
   \<and> ''table.csv'' \<in> folder_after_run missing_output_attempt
   \<and> (\<exists>s'. get_code_and_respond_to_issues example_deps missing_output_attempt example_state
              = Inr (s', None)
          \<and> data_folder s' = {''data.csv''})"
proof -
  have h1: "extract_code missing_output_attempt = Extracted ''df.to_csv(...)''"
    and h2: "\<not> requesting_small_change example_state"
    and h3: "run_code missing_output_attempt = Inr (example_code_and_output, [])"
    by (simp_all add: missing_output_attempt_def example_state_def)
  obtain output_issues where
    h4: "collect_output_issues example_deps example_state example_code_and_output []
           = Inr output_issues"
    and h5: "output_issues \<noteq> []"
    by (simp add: collect_output_issues_def get_issues_for_num_files_created_def
        get_issues_for_created_output_files_def get_issues_for_unsaved_dataframes_def
        example_state_def example_code_and_output_def)
  have h6: "set (created_data_files example_code_and_output) \<subseteq> folder_after_run missing_output_attempt"
    and h7: "distinct (created_data_files example_code_and_output)"
    and h8: "''table.csv'' \<in> folder_after_run missing_output_attempt"
    by (simp_all add: missing_output_attempt_def example_code_and_output_def)
  have d: "folder_after_run missing_output_attempt - set (created_data_files example_code_and_output)
             = {''data.csv''}"
    by (auto simp: missing_output_attempt_def example_code_and_output_def)
  from faulty_output_is_discarded_and_files_deleted[OF h1 h2 h3 h4 h5 h6 h7]
  obtain s' where
    a: "get_code_and_respond_to_issues example_deps missing_output_attempt example_state
          = Inr (s', None)"
    and b: "data_folder s'
          = folder_after_run missing_output_attempt - set (created_data_files example_code_and_output)"
    by blast
  from b d have "data_folder s' = {''data.csv''}"
    by (rule trans)
  with a have "\<exists>s'. get_code_and_respond_to_issues example_deps missing_output_attempt example_state
              = Inr (s', None) \<and> data_folder s' = {''data.csv''}"
    by blast
  with h1 h2 h3 h4 h5 h6 h7 h8 show ?thesis by blast
qed

subsection \<open>Exhausting the iterations\<close>




end
